theory Spec2Isabelle
  imports Complex_Main "HOL-Library.Sublist" "HOL-Library.Multiset"
begin

section \<open>Clinic inventory: the data model of \<open>InventoryData\<close>\<close>

text \<open>
  The class \<open>InventoryData\<close> (js/data.js) keeps an array of item objects and two
  configuration fields. An item is a plain JavaScript object; the fields the README marks
  optional (\<open>lowStockThreshold\<close>, \<open>batchNumber\<close>, \<open>description\<close>) are options here, with
  \<open>None\<close> for a property that is absent.

  Dates are stored as date-only ISO strings (\<open>'2025-12-15'\<close>). \<open>new Date(s)\<close> reads such a
  string as midnight UTC of that day, so a date is modelled by its day number (days since
  1970-01-01) and \<open>new Date(s).getTime()\<close> by \<open>dateMs\<close>. The ambient clock \<open>new Date()\<close> is the
  explicit argument \<open>now\<close>, in milliseconds since the epoch. Strings that do not parse as
  dates are outside the model.
\<close>

record item =
  id_of :: string
  name :: string
  category :: string
  quantity :: int
  lowStockThreshold :: "int option"
  expiryDate :: int
  batchNumber :: "string option"
  description :: "string option"
  dateAdded :: int
  lastUpdated :: int

text \<open>The object itself: \<open>this.items\<close>, \<open>this.lowStockThreshold\<close> (the global default, 10 in the
  constructor) and \<open>this.expiryWarningDays\<close> (30 in the constructor).\<close>

record inventoryData =
  items :: "item list"
  globalLowStockThreshold :: int
  expiryWarningDays :: int

definition msPerDay :: int where
  "msPerDay = 1000 * 60 * 60 * 24"

definition dateMs :: "int \<Rightarrow> int" where
  "dateMs d = d * msPerDay"

text \<open>\<open>new Date().toISOString().split('T')[0]\<close>: the UTC calendar day of the clock.\<close>

definition todayISO :: "int \<Rightarrow> int" where
  "todayISO now = now div msPerDay"

text \<open>\<open>Math.ceil(a / b)\<close> on the real quotient. JavaScript computes the quotient in double
  precision, which is exact enough for the ceiling as long as the two dates are less than
  \<open>2^26\<close> days apart.\<close>

definition mathCeilDiv :: "int \<Rightarrow> int \<Rightarrow> int" where
  "mathCeilDiv a b = \<lceil>real_of_int a / real_of_int b\<rceil>"

subsection \<open>Utility methods\<close>

definition isExpired :: "int \<Rightarrow> int \<Rightarrow> bool" where
  "isExpired now expiry = (dateMs expiry < now)"

definition isExpiringSoon :: "int \<Rightarrow> int \<Rightarrow> int \<Rightarrow> bool" where
  "isExpiringSoon now expiry days =
     (let diffTime = dateMs expiry - now;
          diffDays = mathCeilDiv diffTime msPerDay
      in diffDays \<le> days \<and> diffDays > 0)"

definition getDaysUntilExpiry :: "int \<Rightarrow> int \<Rightarrow> int" where
  "getDaysUntilExpiry now expiry =
     (let diffTime = dateMs expiry - now
      in mathCeilDiv diffTime msPerDay)"

text \<open>\<open>item.lowStockThreshold || this.lowStockThreshold\<close>: the item's own threshold unless it
  is absent or falsy (that is, 0), in which case the global default applies.\<close>

definition effectiveThreshold :: "inventoryData \<Rightarrow> item \<Rightarrow> int" where
  "effectiveThreshold s it =
     (case lowStockThreshold it of
        None \<Rightarrow> globalLowStockThreshold s
      | Some t \<Rightarrow> if t = 0 then globalLowStockThreshold s else t)"

text \<open>For comparison only, the threshold as the specification words it (section 4.1,
  \<open>effectiveThreshold\<close>): the record's own threshold if present, else the default. No
  operation of the model uses it.\<close>

definition specEffectiveThreshold :: "inventoryData \<Rightarrow> item \<Rightarrow> int" where
  "specEffectiveThreshold s it =
     (case lowStockThreshold it of
        None \<Rightarrow> globalLowStockThreshold s
      | Some t \<Rightarrow> t)"

definition getItemStatus :: "inventoryData \<Rightarrow> int \<Rightarrow> item \<Rightarrow> string" where
  "getItemStatus s now it =
     (if quantity it = 0 then ''out-of-stock''
      else if isExpired now (expiryDate it) then ''expired''
      else if isExpiringSoon now (expiryDate it) (expiryWarningDays s) then ''expiring''
      else if quantity it \<le> effectiveThreshold s it then ''low-stock''
      else ''in-stock'')"

subsection \<open>The initial data\<close>

text \<open>The first five entries of \<open>getInitialData()\<close>, used as sample records below
  (2025-12-15 is day 20437, 2026-06-30 day 20634, 2025-08-25 day 20325; 2025-09-01, the
  day of most examples, is day 20332).\<close>

definition paracetamol :: item where
  "paracetamol =
     \<lparr>id_of = ''1'', name = ''Paracetamol 500mg'', category = ''Medicine'', quantity = 150,
      lowStockThreshold = Some 20, expiryDate = 20437, batchNumber = Some ''PAR2024001'',
      description = Some ''Pain relief and fever reducer tablets'',
      dateAdded = 19737, lastUpdated = 19936\<rparr>"

definition surgicalMasks :: item where
  "surgicalMasks =
     \<lparr>id_of = ''2'', name = ''Surgical Masks'', category = ''Consumable'', quantity = 8,
      lowStockThreshold = Some 50, expiryDate = 20634, batchNumber = Some ''MASK2024001'',
      description = Some ''3-ply disposable surgical masks'',
      dateAdded = 19754, lastUpdated = 19924\<rparr>"

definition amoxicillin :: item where
  "amoxicillin =
     \<lparr>id_of = ''5'', name = ''Antibiotics - Amoxicillin'', category = ''Medicine'', quantity = 3,
      lowStockThreshold = Some 10, expiryDate = 20325, batchNumber = Some ''AMOX2024001'',
      description = Some ''500mg Amoxicillin capsules'',
      dateAdded = 19814, lastUpdated = 19940\<rparr>"

definition digitalThermometer :: item where
  "digitalThermometer =
     \<lparr>id_of = ''3'', name = ''Digital Thermometer'', category = ''Equipment'', quantity = 25,
      lowStockThreshold = Some 5, expiryDate = 20897, batchNumber = Some ''THERM2024001'',
      description = Some ''Digital infrared thermometer'',
      dateAdded = 19732, lastUpdated = 19889\<rparr>"

definition vitaminC :: item where
  "vitaminC =
     \<lparr>id_of = ''4'', name = ''Vitamin C Tablets'', category = ''Supplement'', quantity = 45,
      lowStockThreshold = Some 15, expiryDate = 20341, batchNumber = Some ''VIT2024001'',
      description = Some ''1000mg Vitamin C tablets'',
      dateAdded = 19783, lastUpdated = 19934\<rparr>"

text \<open>The object as the constructor leaves it, over a given array of items.\<close>

definition newInventoryData :: "item list \<Rightarrow> inventoryData" where
  "newInventoryData xs = \<lparr>items = xs, globalLowStockThreshold = 10, expiryWarningDays = 30\<rparr>"

subsection \<open>CRUD operations\<close>

text \<open>
  The mutating methods take the object and return it updated, next to the method's own
  return value (\<open>None\<close> for JavaScript's \<open>null\<close>). \<open>saveToStorage\<close> catches its own errors
  and does not touch \<open>this.items\<close>; it is left out. \<open>generateId()\<close> reads the clock and the
  random generator, so the fresh id is an argument.

  An update payload is an object with any subset of the item's properties: \<open>None\<close> is an
  absent property. \<open>spread it u\<close> is the object literal \<open>{...it, ...u}\<close>.
\<close>

record updates =
  u_id :: "string option"
  u_name :: "string option"
  u_category :: "string option"
  u_quantity :: "int option"
  u_lowStockThreshold :: "int option"
  u_expiryDate :: "int option"
  u_batchNumber :: "string option"
  u_description :: "string option"
  u_dateAdded :: "int option"
  u_lastUpdated :: "int option"

definition noUpdates :: updates where
  "noUpdates =
     \<lparr>u_id = None, u_name = None, u_category = None, u_quantity = None,
      u_lowStockThreshold = None, u_expiryDate = None, u_batchNumber = None,
      u_description = None, u_dateAdded = None, u_lastUpdated = None\<rparr>"

definition orElse :: "'a option \<Rightarrow> 'a \<Rightarrow> 'a" where
  "orElse v d = (case v of None \<Rightarrow> d | Some x \<Rightarrow> x)"

definition orKeep :: "'a option \<Rightarrow> 'a option \<Rightarrow> 'a option" where
  "orKeep v d = (case v of None \<Rightarrow> d | Some x \<Rightarrow> Some x)"

definition spread :: "item \<Rightarrow> updates \<Rightarrow> item" where
  "spread it u =
     \<lparr>id_of = orElse (u_id u) (id_of it),
      name = orElse (u_name u) (name it),
      category = orElse (u_category u) (category it),
      quantity = orElse (u_quantity u) (quantity it),
      lowStockThreshold = orKeep (u_lowStockThreshold u) (lowStockThreshold it),
      expiryDate = orElse (u_expiryDate u) (expiryDate it),
      batchNumber = orKeep (u_batchNumber u) (batchNumber it),
      description = orKeep (u_description u) (description it),
      dateAdded = orElse (u_dateAdded u) (dateAdded it),
      lastUpdated = orElse (u_lastUpdated u) (lastUpdated it)\<rparr>"

fun findIndex :: "('a \<Rightarrow> bool) \<Rightarrow> 'a list \<Rightarrow> nat option" where
  "findIndex p [] = None"
| "findIndex p (x # xs) = (if p x then Some 0 else map_option Suc (findIndex p xs))"

definition getItemById :: "inventoryData \<Rightarrow> string \<Rightarrow> item option" where
  "getItemById s ident = find (\<lambda>it. id_of it = ident) (items s)"

definition addItem :: "inventoryData \<Rightarrow> int \<Rightarrow> string \<Rightarrow> item \<Rightarrow> item \<times> inventoryData" where
  "addItem s now newId itemData =
     (let newItem = itemData\<lparr>id_of := newId, dateAdded := todayISO now,
                              lastUpdated := todayISO now\<rparr>
      in (newItem, s\<lparr>items := items s @ [newItem]\<rparr>))"

definition updateItem ::
  "inventoryData \<Rightarrow> int \<Rightarrow> string \<Rightarrow> updates \<Rightarrow> item option \<times> inventoryData" where
  "updateItem s now ident u =
     (case findIndex (\<lambda>it. id_of it = ident) (items s) of
        Some index \<Rightarrow>
          (let updated = (spread (items s ! index) u)\<lparr>lastUpdated := todayISO now\<rparr>
           in (Some updated, s\<lparr>items := (items s)[index := updated]\<rparr>))
      | None \<Rightarrow> (None, s))"

definition deleteItem :: "inventoryData \<Rightarrow> string \<Rightarrow> item option \<times> inventoryData" where
  "deleteItem s ident =
     (case findIndex (\<lambda>it. id_of it = ident) (items s) of
        Some index \<Rightarrow>
          (Some (items s ! index),
           s\<lparr>items := take index (items s) @ drop (Suc index) (items s)\<rparr>)
      | None \<Rightarrow> (None, s))"

definition updateQuantity ::
  "inventoryData \<Rightarrow> int \<Rightarrow> string \<Rightarrow> int \<Rightarrow> item option \<times> inventoryData" where
  "updateQuantity s now ident newQuantity =
     updateItem s now ident (noUpdates\<lparr>u_quantity := Some (max 0 newQuantity)\<rparr>)"

definition increaseQuantity ::
  "inventoryData \<Rightarrow> int \<Rightarrow> string \<Rightarrow> int \<Rightarrow> item option \<times> inventoryData" where
  "increaseQuantity s now ident amount =
     (case getItemById s ident of
        Some it \<Rightarrow> updateQuantity s now ident (quantity it + amount)
      | None \<Rightarrow> (None, s))"

definition decreaseQuantity ::
  "inventoryData \<Rightarrow> int \<Rightarrow> string \<Rightarrow> int \<Rightarrow> item option \<times> inventoryData" where
  "decreaseQuantity s now ident amount =
     (case getItemById s ident of
        Some it \<Rightarrow> updateQuantity s now ident (quantity it - amount)
      | None \<Rightarrow> (None, s))"

subsection \<open>Filtering and search\<close>

text \<open>
  \<open>String.prototype.toLowerCase\<close> on the ASCII letters (a \<open>char\<close> is one byte here), and
  \<open>String.prototype.includes\<close>: the argument occurs as a contiguous piece.
\<close>

definition toLowerChar :: "char \<Rightarrow> char" where
  "toLowerChar c =
     (if 65 \<le> (of_char c :: nat) \<and> (of_char c :: nat) \<le> 90
      then (case c of Char b0 b1 b2 b3 b4 b5 b6 b7 \<Rightarrow> Char b0 b1 b2 b3 b4 True b6 b7)
      else c)"

definition toLowerCase :: "string \<Rightarrow> string" where
  "toLowerCase str = map toLowerChar str"

fun includesStr :: "string \<Rightarrow> string \<Rightarrow> bool" where
  "includesStr [] t = (t = [])"
| "includesStr (c # cs) t = (prefix t (c # cs) \<or> includesStr cs t)"

text \<open>
  Calling a method on \<open>undefined\<close> throws a \<open>TypeError\<close>. The callback of \<open>searchItems\<close>
  reads \<open>item.batchNumber.toLowerCase()\<close> without a guard and guards \<open>item.description\<close>
  (an absent and an empty description are both falsy). \<open>||\<close> evaluates left to right and
  stops at the first true operand.
\<close>

datatype error = TypeError

definition searchMatch :: "string \<Rightarrow> item \<Rightarrow> error + bool" where
  "searchMatch searchTerm it =
     (if includesStr (toLowerCase (name it)) searchTerm then Inr True
      else if includesStr (toLowerCase (category it)) searchTerm then Inr True
      else (case batchNumber it of
              None \<Rightarrow> Inl TypeError
            | Some b \<Rightarrow>
                if includesStr (toLowerCase b) searchTerm then Inr True
                else (case description it of
                        None \<Rightarrow> Inr False
                      | Some d \<Rightarrow> Inr (d \<noteq> [] \<and> includesStr (toLowerCase d) searchTerm))))"

text \<open>\<open>Array.prototype.filter\<close> with a callback that may throw: the callback runs on the
  elements in order and the first exception ends the call.\<close>

fun filterThrowing :: "('a \<Rightarrow> error + bool) \<Rightarrow> 'a list \<Rightarrow> error + 'a list" where
  "filterThrowing p [] = Inr []"
| "filterThrowing p (x # xs) =
     (case p x of
        Inl e \<Rightarrow> Inl e
      | Inr b \<Rightarrow>
          (case filterThrowing p xs of
             Inl e \<Rightarrow> Inl e
           | Inr ys \<Rightarrow> Inr (if b then x # ys else ys)))"

definition searchItems :: "inventoryData \<Rightarrow> string \<Rightarrow> error + item list" where
  "searchItems s query =
     (let searchTerm = toLowerCase query
      in filterThrowing (searchMatch searchTerm) (items s))"

definition filterByStatus :: "inventoryData \<Rightarrow> int \<Rightarrow> string \<Rightarrow> item list" where
  "filterByStatus s now status =
     (if status = ''in-stock'' then
        filter (\<lambda>it. quantity it > effectiveThreshold s it
                   \<and> \<not> isExpiringSoon now (expiryDate it) (expiryWarningDays s)
                   \<and> \<not> isExpired now (expiryDate it)) (items s)
      else if status = ''low-stock'' then
        filter (\<lambda>it. quantity it \<le> effectiveThreshold s it \<and> quantity it > 0) (items s)
      else if status = ''out-of-stock'' then
        filter (\<lambda>it. quantity it = 0) (items s)
      else if status = ''expiring'' then
        filter (\<lambda>it. isExpiringSoon now (expiryDate it) (expiryWarningDays s)
                   \<and> \<not> isExpired now (expiryDate it)) (items s)
      else if status = ''expired'' then
        filter (\<lambda>it. isExpired now (expiryDate it)) (items s)
      else items s)"

subsection \<open>Analytics\<close>

definition getLowStockItems :: "inventoryData \<Rightarrow> item list" where
  "getLowStockItems s =
     filter (\<lambda>it. quantity it \<le> effectiveThreshold s it \<and> quantity it > 0) (items s)"

definition getExpiringSoonItems :: "inventoryData \<Rightarrow> int \<Rightarrow> item list" where
  "getExpiringSoonItems s now =
     filter (\<lambda>it. isExpiringSoon now (expiryDate it) (expiryWarningDays s)
                \<and> \<not> isExpired now (expiryDate it)) (items s)"

definition getExpiredItems :: "inventoryData \<Rightarrow> int \<Rightarrow> item list" where
  "getExpiredItems s now = filter (\<lambda>it. isExpired now (expiryDate it)) (items s)"

record stats =
  total_count :: int
  lowStock :: int
  expiring :: int
  expired :: int
  inStock :: int
  outOfStock :: int

definition getStats :: "inventoryData \<Rightarrow> int \<Rightarrow> stats" where
  "getStats s now =
     (let total = int (length (items s));
          lowStockN = int (length (getLowStockItems s));
          expiringN = int (length (getExpiringSoonItems s now));
          expiredN = int (length (getExpiredItems s now));
          inStockN = total - lowStockN - expiredN
      in \<lparr>total_count = total, lowStock = lowStockN, expiring = expiringN,
          expired = expiredN, inStock = inStockN,
          outOfStock = int (length (filter (\<lambda>it. quantity it = 0) (items s)))\<rparr>)"

subsection \<open>Sorting\<close>

text \<open>
  \<open>Array.prototype.sort(cmp)\<close>. The language standard (since ES2019) requires the sort to
  be stable; with a consistent comparator its result is the one of this insertion sort,
  which puts an element before the first later one that it does not have to follow.
\<close>

fun insertBy :: "('a \<Rightarrow> 'a \<Rightarrow> int) \<Rightarrow> 'a \<Rightarrow> 'a list \<Rightarrow> 'a list" where
  "insertBy cmp x [] = [x]"
| "insertBy cmp x (y # ys) = (if cmp x y \<le> 0 then x # y # ys else y # insertBy cmp x ys)"

fun arraySort :: "('a \<Rightarrow> 'a \<Rightarrow> int) \<Rightarrow> 'a list \<Rightarrow> 'a list" where
  "arraySort cmp [] = []"
| "arraySort cmp (x # xs) = insertBy cmp x (arraySort cmp xs)"

subsection \<open>Critical alerts\<close>








subsection \<open>Recent activity\<close>

record activity =
  activityType :: string
  activityItem :: item
  message :: string
  date :: int
  activityIcon :: string

definition compareLastUpdated :: "item \<Rightarrow> item \<Rightarrow> int" where
  "compareLastUpdated a b = dateMs (lastUpdated b) - dateMs (lastUpdated a)"

definition sortedItems :: "inventoryData \<Rightarrow> item list" where
  "sortedItems s = arraySort compareLastUpdated (items s)"

definition getRecentActivity :: "inventoryData \<Rightarrow> activity list" where
  "getRecentActivity s =
     map (\<lambda>it. \<lparr>activityType = ''updated'', activityItem = it,
                message = name it @ '' was updated'', date = lastUpdated it,
                activityIcon = ''fas fa-edit''\<rparr>)
       (take 10 (sortedItems s))"

section \<open>Arithmetic of the day difference\<close>

lemma msPerDay_pos: "0 < msPerDay"
  by (simp add: msPerDay_def)

lemma mathCeilDiv_int: "0 < b \<Longrightarrow> mathCeilDiv a b = - ((- a) div b)"
proof -
  assume b: "0 < b"
  have "\<lceil>real_of_int a / real_of_int b\<rceil> = - \<lfloor>- (real_of_int a / real_of_int b)\<rfloor>"
    by (simp add: ceiling_def)
  also have "- (real_of_int a / real_of_int b) = real_of_int (- a) / real_of_int b"
    by simp
  also have "\<lfloor>real_of_int (- a) / real_of_int b\<rfloor> = (- a) div b"
    by (rule floor_divide_of_int_eq)
  finally show ?thesis by (simp add: mathCeilDiv_def)
qed

lemma getDaysUntilExpiry_div: "getDaysUntilExpiry now e = e - now div msPerDay"
proof -
  have "(- (dateMs e - now)) div msPerDay = (now + (- e) * msPerDay) div msPerDay"
    by (simp add: dateMs_def algebra_simps)
  also have "\<dots> = now div msPerDay + (- e)"
    using msPerDay_pos by (subst div_mult_self1) simp_all
  finally show ?thesis
    using msPerDay_pos by (simp add: getDaysUntilExpiry_def mathCeilDiv_int)
qed

lemma isExpiringSoon_days:
  "isExpiringSoon now e days =
     (getDaysUntilExpiry now e \<le> days \<and> getDaysUntilExpiry now e > 0)"
  by (simp add: isExpiringSoon_def getDaysUntilExpiry_def Let_def)

lemma isExpired_days:
  "isExpired now e = (e < now div msPerDay \<or> (e = now div msPerDay \<and> now mod msPerDay \<noteq> 0))"
proof -
  define q where "q = now div msPerDay"
  define r where "r = now mod msPerDay"
  have now: "now = q * msPerDay + r"
    by (simp add: q_def r_def)
  have r: "0 \<le> r" "r < msPerDay"
    using msPerDay_pos by (simp_all add: r_def)
  have below: "e * msPerDay + msPerDay \<le> q * msPerDay" if "e < q"
    using mult_right_mono [of "e + 1" q msPerDay] msPerDay_pos that
    by (simp add: algebra_simps)
  have above: "q * msPerDay + msPerDay \<le> e * msPerDay" if "q < e"
    using mult_right_mono [of "q + 1" e msPerDay] msPerDay_pos that
    by (simp add: algebra_simps)
  have "(e * msPerDay < q * msPerDay + r) = (e < q \<or> (e = q \<and> r \<noteq> 0))"
    using below above r by (cases e q rule: linorder_cases) auto
  then show ?thesis
    unfolding isExpired_def dateMs_def q_def [symmetric] r_def [symmetric]
    using now by simp
qed

lemma effectiveThreshold_cases:
  "effectiveThreshold s (it\<lparr>lowStockThreshold := None\<rparr>) = globalLowStockThreshold s"
  "effectiveThreshold s (it\<lparr>lowStockThreshold := Some 0\<rparr>) = globalLowStockThreshold s"
  "t \<noteq> 0 \<Longrightarrow> effectiveThreshold s (it\<lparr>lowStockThreshold := Some t\<rparr>) = t"
  by (simp_all add: effectiveThreshold_def)

section \<open>The classifier\<close>

text \<open>
  C1, as stated, fails for a record whose own threshold is 0. The specification's
  effective threshold is the record's threshold whenever it is present, so paracetamol
  with quantity 5 and \<open>lowStockThreshold: 0\<close>, neither expired nor expiring on 2025-09-01,
  would not be low on stock (5 is above 0). The code evaluates
  \<open>item.lowStockThreshold || this.lowStockThreshold\<close>, takes the default 10 and returns
  low-stock.
\<close>

theorem getItemStatus_zero_threshold_counterexample:
  "lowStockThreshold (paracetamol\<lparr>quantity := 5, lowStockThreshold := Some 0\<rparr>) = Some 0
   \<and> quantity (paracetamol\<lparr>quantity := 5, lowStockThreshold := Some 0\<rparr>) \<noteq> 0
   \<and> \<not> isExpired (dateMs 20332) (expiryDate (paracetamol\<lparr>quantity := 5, lowStockThreshold := Some 0\<rparr>))
   \<and> \<not> isExpiringSoon (dateMs 20332)
         (expiryDate (paracetamol\<lparr>quantity := 5, lowStockThreshold := Some 0\<rparr>)) 30
   \<and> specEffectiveThreshold (newInventoryData [paracetamol\<lparr>quantity := 5, lowStockThreshold := Some 0\<rparr>])
        (paracetamol\<lparr>quantity := 5, lowStockThreshold := Some 0\<rparr>) = 0
   \<and> \<not> quantity (paracetamol\<lparr>quantity := 5, lowStockThreshold := Some 0\<rparr>)
         \<le> specEffectiveThreshold
              (newInventoryData [paracetamol\<lparr>quantity := 5, lowStockThreshold := Some 0\<rparr>])
              (paracetamol\<lparr>quantity := 5, lowStockThreshold := Some 0\<rparr>)
   \<and> getItemStatus (newInventoryData [paracetamol\<lparr>quantity := 5, lowStockThreshold := Some 0\<rparr>])
        (dateMs 20332) (paracetamol\<lparr>quantity := 5, lowStockThreshold := Some 0\<rparr>) = ''low-stock''"
  by (simp add: getItemStatus_def isExpiringSoon_days getDaysUntilExpiry_div isExpired_def
      effectiveThreshold_def specEffectiveThreshold_def newInventoryData_def paracetamol_def
      dateMs_def msPerDay_def)

text \<open>
  C1, amended. \<open>getItemStatus\<close> returns one of the five status strings, and which one is
  decided by the rules in their order: quantity 0 gives out-of-stock; otherwise an expired
  date gives expired; otherwise a date in the warning window gives expiring; otherwise a
  quantity not above the threshold in force gives low-stock; otherwise in-stock. Each
  status is characterised by its own rule together with the failure of all earlier ones,
  so exactly one applies; in particular a record with quantity 0 that is also expired is
  out-of-stock. The threshold in force is the record's own threshold when that is present
  and not 0, and the global default when it is absent or 0; it is the specification's
  effective threshold for every record whose own threshold is not 0.
\<close>

theorem getItemStatus_precedence:
  "getItemStatus s now it \<in> {''out-of-stock'', ''expired'', ''expiring'', ''low-stock'', ''in-stock''}
   \<and> (getItemStatus s now it = ''out-of-stock'') = (quantity it = 0)
   \<and> (getItemStatus s now it = ''expired'') =
       (quantity it \<noteq> 0 \<and> isExpired now (expiryDate it))
   \<and> (getItemStatus s now it = ''expiring'') =
       (quantity it \<noteq> 0 \<and> \<not> isExpired now (expiryDate it)
        \<and> isExpiringSoon now (expiryDate it) (expiryWarningDays s))
   \<and> (getItemStatus s now it = ''low-stock'') =
       (quantity it \<noteq> 0 \<and> \<not> isExpired now (expiryDate it)
        \<and> \<not> isExpiringSoon now (expiryDate it) (expiryWarningDays s)
        \<and> quantity it \<le> effectiveThreshold s it)
   \<and> (getItemStatus s now it = ''in-stock'') =
       (quantity it \<noteq> 0 \<and> \<not> isExpired now (expiryDate it)
        \<and> \<not> isExpiringSoon now (expiryDate it) (expiryWarningDays s)
        \<and> \<not> quantity it \<le> effectiveThreshold s it)
   \<and> (quantity it = 0 \<and> isExpired now (expiryDate it)
        \<longrightarrow> getItemStatus s now it = ''out-of-stock'')
   \<and> (lowStockThreshold it = None \<or> lowStockThreshold it = Some 0
        \<longrightarrow> effectiveThreshold s it = globalLowStockThreshold s)
   \<and> (lowStockThreshold it = Some t \<and> t \<noteq> 0 \<longrightarrow> effectiveThreshold s it = t)
   \<and> (lowStockThreshold it \<noteq> Some 0
        \<longrightarrow> effectiveThreshold s it = specEffectiveThreshold s it)"
proof -
  have chain: "getItemStatus s now it
        \<in> {''out-of-stock'', ''expired'', ''expiring'', ''low-stock'', ''in-stock''}
      \<and> (getItemStatus s now it = ''out-of-stock'') = (quantity it = 0)
      \<and> (getItemStatus s now it = ''expired'') =
          (quantity it \<noteq> 0 \<and> isExpired now (expiryDate it))
      \<and> (getItemStatus s now it = ''expiring'') =
          (quantity it \<noteq> 0 \<and> \<not> isExpired now (expiryDate it)
           \<and> isExpiringSoon now (expiryDate it) (expiryWarningDays s))
      \<and> (getItemStatus s now it = ''low-stock'') =
          (quantity it \<noteq> 0 \<and> \<not> isExpired now (expiryDate it)
           \<and> \<not> isExpiringSoon now (expiryDate it) (expiryWarningDays s)
           \<and> quantity it \<le> effectiveThreshold s it)
      \<and> (getItemStatus s now it = ''in-stock'') =
          (quantity it \<noteq> 0 \<and> \<not> isExpired now (expiryDate it)
           \<and> \<not> isExpiringSoon now (expiryDate it) (expiryWarningDays s)
           \<and> \<not> quantity it \<le> effectiveThreshold s it)
      \<and> (quantity it = 0 \<and> isExpired now (expiryDate it)
           \<longrightarrow> getItemStatus s now it = ''out-of-stock'')"
    by (simp add: getItemStatus_def)
  have fallback: "lowStockThreshold it = None \<or> lowStockThreshold it = Some 0
      \<longrightarrow> effectiveThreshold s it = globalLowStockThreshold s"
    by (auto simp add: effectiveThreshold_def)
  have own: "lowStockThreshold it = Some t \<and> t \<noteq> 0 \<longrightarrow> effectiveThreshold s it = t"
    by (simp add: effectiveThreshold_def)
  have spec: "lowStockThreshold it \<noteq> Some 0
      \<longrightarrow> effectiveThreshold s it = specEffectiveThreshold s it"
    by (simp add: effectiveThreshold_def specEffectiveThreshold_def split: option.splits)
  from chain fallback own spec show ?thesis by blast
qed

text \<open>The instances: amoxicillin (expiry 2025-08-25, threshold 10) with its quantity set to
  0, looked at on 2025-09-01 at 01:00 UTC, and paracetamol with threshold 0.\<close>

theorem getItemStatus_precedence_witness:
  "quantity (amoxicillin\<lparr>quantity := 0\<rparr>) = 0
   \<and> isExpired (dateMs 20332 + 3600000) (expiryDate (amoxicillin\<lparr>quantity := 0\<rparr>))
   \<and> getItemStatus (newInventoryData [amoxicillin\<lparr>quantity := 0\<rparr>]) (dateMs 20332 + 3600000)
        (amoxicillin\<lparr>quantity := 0\<rparr>) = ''out-of-stock''
   \<and> lowStockThreshold (amoxicillin\<lparr>quantity := 0\<rparr>) = Some 10
   \<and> (10::int) \<noteq> 0
   \<and> effectiveThreshold (newInventoryData [amoxicillin\<lparr>quantity := 0\<rparr>])
        (amoxicillin\<lparr>quantity := 0\<rparr>) = 10
   \<and> lowStockThreshold (paracetamol\<lparr>quantity := 5, lowStockThreshold := Some 0\<rparr>) = Some 0
   \<and> effectiveThreshold (newInventoryData [paracetamol\<lparr>quantity := 5, lowStockThreshold := Some 0\<rparr>])
        (paracetamol\<lparr>quantity := 5, lowStockThreshold := Some 0\<rparr>) = 10"
proof -
  let ?a = "amoxicillin\<lparr>quantity := 0\<rparr>"
  let ?p = "paracetamol\<lparr>quantity := 5, lowStockThreshold := Some 0\<rparr>"
  note instA = getItemStatus_precedence
    [of "newInventoryData [?a]" "dateMs 20332 + 3600000" ?a 10]
  note instP = getItemStatus_precedence
    [of "newInventoryData [?p]" "dateMs 20332" ?p 10]
  have pre: "quantity ?a = 0 \<and> isExpired (dateMs 20332 + 3600000) (expiryDate ?a)"
    by (simp add: amoxicillin_def isExpired_def dateMs_def msPerDay_def)
  with instA have status: "getItemStatus (newInventoryData [?a]) (dateMs 20332 + 3600000) ?a
      = ''out-of-stock''"
    by blast
  have thrA: "lowStockThreshold ?a = Some 10 \<and> (10::int) \<noteq> 0"
    by (simp add: amoxicillin_def)
  with instA have effA: "effectiveThreshold (newInventoryData [?a]) ?a = 10"
    by blast
  have thrP: "lowStockThreshold ?p = Some 0"
    by simp
  with instP have "effectiveThreshold (newInventoryData [?p]) ?p
      = globalLowStockThreshold (newInventoryData [?p])"
    by blast
  then have effP: "effectiveThreshold (newInventoryData [?p]) ?p = 10"
    by (simp add: newInventoryData_def)
  from pre status thrA effA thrP effP show ?thesis by blast
qed

text \<open>
  C3. \<open>getDaysUntilExpiry\<close> is the ceiling of the difference between the expiry date and
  the reference instant in days. Because the expiry date is a midnight, the ceiling absorbs
  the time of day of the reference instant: the result is the difference of the two
  calendar days (UTC), the same at every instant \<open>dateMs d + t\<close> of day \<open>d\<close>, and equal for
  any two instants of the same day. The result is negative exactly when the expiry day
  lies before the reference day, and then the date has passed (\<open>isExpired\<close>).
\<close>

theorem getDaysUntilExpiry_calendar_days:
  "getDaysUntilExpiry now e = \<lceil>real_of_int (dateMs e - now) / real_of_int msPerDay\<rceil>
   \<and> getDaysUntilExpiry now e = e - now div msPerDay
   \<and> (0 \<le> t \<and> t < msPerDay \<longrightarrow> getDaysUntilExpiry (dateMs d + t) e = e - d)
   \<and> (now div msPerDay = now' div msPerDay
        \<longrightarrow> getDaysUntilExpiry now e = getDaysUntilExpiry now' e)
   \<and> (getDaysUntilExpiry now e < 0) = (e < now div msPerDay)
   \<and> (getDaysUntilExpiry now e < 0 \<longrightarrow> isExpired now e)"
proof -
  have ceil: "getDaysUntilExpiry now e = \<lceil>real_of_int (dateMs e - now) / real_of_int msPerDay\<rceil>"
    by (simp add: getDaysUntilExpiry_def mathCeilDiv_def)
  have day: "(dateMs d + t) div msPerDay = d" if "0 \<le> t" "t < msPerDay"
    using that by (simp add: dateMs_def)
  have timeOfDay: "0 \<le> t \<and> t < msPerDay \<longrightarrow> getDaysUntilExpiry (dateMs d + t) e = e - d"
    using day by (simp add: getDaysUntilExpiry_div)
  have sameDay: "now div msPerDay = now' div msPerDay
      \<longrightarrow> getDaysUntilExpiry now e = getDaysUntilExpiry now' e"
    by (simp add: getDaysUntilExpiry_div)
  have neg: "(getDaysUntilExpiry now e < 0) = (e < now div msPerDay)"
    by (simp add: getDaysUntilExpiry_div)
  have passed: "getDaysUntilExpiry now e < 0 \<longrightarrow> isExpired now e"
    by (simp add: getDaysUntilExpiry_div isExpired_days)
  from ceil timeOfDay sameDay neg passed show ?thesis
    using getDaysUntilExpiry_div [of now e] by blast
qed

text \<open>The instance: the last millisecond of 2025-09-01 against the expiry date 2025-08-25.\<close>

theorem getDaysUntilExpiry_calendar_days_witness:
  "(0::int) \<le> 86399999 \<and> (86399999::int) < msPerDay
   \<and> (dateMs 20332 + 86399999) div msPerDay = (dateMs 20332) div msPerDay
   \<and> getDaysUntilExpiry (dateMs 20332 + 86399999) 20325 = - 7
   \<and> getDaysUntilExpiry (dateMs 20332 + 86399999) 20325 = getDaysUntilExpiry (dateMs 20332) 20325
   \<and> isExpired (dateMs 20332 + 86399999) 20325"
proof -
  note inst = getDaysUntilExpiry_calendar_days
    [of "dateMs 20332 + 86399999" 20325 86399999 20332 "dateMs 20332"]
  have t: "(0::int) \<le> 86399999 \<and> (86399999::int) < msPerDay"
    by (simp add: msPerDay_def)
  have same: "(dateMs 20332 + 86399999) div msPerDay = (dateMs 20332) div msPerDay"
    by (simp add: dateMs_def msPerDay_def)
  from inst t have days: "getDaysUntilExpiry (dateMs 20332 + 86399999) 20325 = - 7"
    by simp
  from inst same have eq: "getDaysUntilExpiry (dateMs 20332 + 86399999) 20325
      = getDaysUntilExpiry (dateMs 20332) 20325"
    by blast
  from inst days have "isExpired (dateMs 20332 + 86399999) 20325"
    by simp
  with t same days eq show ?thesis by blast
qed

text \<open>
  C8, as stated, fails at one instant of the day. At exactly midnight UTC of the expiry
  day the difference is 0 days, the date is not yet before the clock, and the record is
  neither expired nor expiring: paracetamol with expiry date 2025-09-01, looked at on
  2025-09-01 at 00:00:00.000, is in-stock.
\<close>

theorem day_zero_counterexample:
  "getDaysUntilExpiry (dateMs 20332) (expiryDate (paracetamol\<lparr>expiryDate := 20332\<rparr>)) = 0
   \<and> \<not> isExpired (dateMs 20332) (expiryDate (paracetamol\<lparr>expiryDate := 20332\<rparr>))
   \<and> \<not> isExpiringSoon (dateMs 20332) (expiryDate (paracetamol\<lparr>expiryDate := 20332\<rparr>)) 30
   \<and> getItemStatus (newInventoryData [paracetamol\<lparr>expiryDate := 20332\<rparr>]) (dateMs 20332)
        (paracetamol\<lparr>expiryDate := 20332\<rparr>) = ''in-stock''"
  by (simp add: getItemStatus_def isExpiringSoon_days getDaysUntilExpiry_div isExpired_def
      effectiveThreshold_def newInventoryData_def paracetamol_def dateMs_def msPerDay_def)

text \<open>
  C8, amended. When \<open>getDaysUntilExpiry\<close> is 0 the date is never expiring soon, whatever
  the warning window. It is expired exactly when the reference instant is later than
  midnight UTC of the expiry day; a record with non-zero quantity is then classified as
  expired, and at no instant of that day as expiring.
\<close>

theorem day_zero_boundary:
  "getDaysUntilExpiry now e = 0 \<Longrightarrow>
     \<not> isExpiringSoon now e days
     \<and> isExpired now e = (now mod msPerDay \<noteq> 0)
     \<and> (quantity it \<noteq> 0 \<and> expiryDate it = e \<and> now mod msPerDay \<noteq> 0
          \<longrightarrow> getItemStatus s now it = ''expired'')
     \<and> (quantity it \<noteq> 0 \<and> expiryDate it = e
          \<longrightarrow> getItemStatus s now it \<noteq> ''expiring'')"
  by (simp add: getItemStatus_def isExpiringSoon_days isExpired_days getDaysUntilExpiry_div)

text \<open>The instance: paracetamol with expiry date 2025-09-01, looked at on that day at 01:00 UTC.\<close>

theorem day_zero_boundary_witness:
  "getDaysUntilExpiry (dateMs 20332 + 3600000) 20332 = 0
   \<and> quantity (paracetamol\<lparr>expiryDate := 20332\<rparr>) \<noteq> 0
   \<and> expiryDate (paracetamol\<lparr>expiryDate := 20332\<rparr>) = 20332
   \<and> (dateMs 20332 + 3600000) mod msPerDay \<noteq> 0
   \<and> isExpired (dateMs 20332 + 3600000) 20332
   \<and> \<not> isExpiringSoon (dateMs 20332 + 3600000) 20332 30
   \<and> getItemStatus (newInventoryData [paracetamol\<lparr>expiryDate := 20332\<rparr>])
        (dateMs 20332 + 3600000) (paracetamol\<lparr>expiryDate := 20332\<rparr>) = ''expired''"
proof -
  have zero: "getDaysUntilExpiry (dateMs 20332 + 3600000) 20332 = 0"
    by (simp add: getDaysUntilExpiry_div dateMs_def msPerDay_def)
  have pre: "quantity (paracetamol\<lparr>expiryDate := 20332\<rparr>) \<noteq> 0
      \<and> expiryDate (paracetamol\<lparr>expiryDate := 20332\<rparr>) = 20332
      \<and> (dateMs 20332 + 3600000) mod msPerDay \<noteq> 0"
    by (simp add: paracetamol_def dateMs_def msPerDay_def)
  from day_zero_boundary [OF zero, of 30 "paracetamol\<lparr>expiryDate := 20332\<rparr>"
      "newInventoryData [paracetamol\<lparr>expiryDate := 20332\<rparr>]"] pre zero
  show ?thesis by simp
qed

section \<open>The aggregator\<close>

text \<open>
  \<open>getStats\<close> computes \<open>inStock\<close> as what is left of the total after the low-stock and the
  expired records; the out-of-stock count is not subtracted. The four counters therefore
  add up to the total plus the out-of-stock count. The records counted as expiring are
  never among the expired ones.
\<close>

lemma getStats_sum:
  "inStock (getStats s now) + lowStock (getStats s now) + expired (getStats s now)
     + outOfStock (getStats s now)
   = total_count (getStats s now) + outOfStock (getStats s now)"
  by (simp add: getStats_def Let_def)

lemma getExpiringSoonItems_not_expired:
  "it \<in> set (getExpiringSoonItems s now) \<Longrightarrow> it \<notin> set (getExpiredItems s now)"
  by (simp add: getExpiringSoonItems_def getExpiredItems_def)

text \<open>A record that is both low on stock and expired is subtracted twice: amoxicillin
  (quantity 3, threshold 10, expired 2025-08-25) alone in the store, on 2025-09-01.\<close>

lemma getStats_negative_inStock:
  "inStock (getStats (newInventoryData [amoxicillin]) (dateMs 20332)) = - 1"
  by (simp add: getStats_def getLowStockItems_def getExpiringSoonItems_def getExpiredItems_def
      isExpiringSoon_days getDaysUntilExpiry_div isExpired_def
      effectiveThreshold_def newInventoryData_def amoxicillin_def dateMs_def msPerDay_def)

text \<open>
  C2. The counters are meant to split the collection: \<open>inStock + lowStock + expired +
  outOfStock\<close> should be the total. For a store holding one record of quantity 0 that is
  not expired (paracetamol with its quantity set to 0, on 2025-09-01), \<open>getStats\<close> returns
  total 1, inStock 1 and outOfStock 1, so the four counters add up to 2. The same record
  is out-of-stock for \<open>getItemStatus\<close> and is not returned by the in-stock filter.
\<close>

theorem getStats_out_of_stock_sum:
  "getStats (newInventoryData [paracetamol\<lparr>quantity := 0\<rparr>]) (dateMs 20332)
     = \<lparr>total_count = 1, lowStock = 0, expiring = 0, expired = 0, inStock = 1, outOfStock = 1\<rparr>
   \<and> inStock (getStats (newInventoryData [paracetamol\<lparr>quantity := 0\<rparr>]) (dateMs 20332))
       + lowStock (getStats (newInventoryData [paracetamol\<lparr>quantity := 0\<rparr>]) (dateMs 20332))
       + expired (getStats (newInventoryData [paracetamol\<lparr>quantity := 0\<rparr>]) (dateMs 20332))
       + outOfStock (getStats (newInventoryData [paracetamol\<lparr>quantity := 0\<rparr>]) (dateMs 20332))
       \<noteq> total_count (getStats (newInventoryData [paracetamol\<lparr>quantity := 0\<rparr>]) (dateMs 20332))
   \<and> getItemStatus (newInventoryData [paracetamol\<lparr>quantity := 0\<rparr>]) (dateMs 20332)
        (paracetamol\<lparr>quantity := 0\<rparr>) = ''out-of-stock''
   \<and> filterByStatus (newInventoryData [paracetamol\<lparr>quantity := 0\<rparr>]) (dateMs 20332) ''in-stock'' = []"
  by (simp add: getStats_def getLowStockItems_def getExpiringSoonItems_def getExpiredItems_def
      filterByStatus_def getItemStatus_def isExpiringSoon_days getDaysUntilExpiry_div isExpired_def
      effectiveThreshold_def newInventoryData_def paracetamol_def dateMs_def msPerDay_def)

section \<open>The store operations\<close>

lemma findIndex_Some:
  "findIndex p xs = Some i \<Longrightarrow> i < length xs \<and> p (xs ! i)"
proof (induction xs arbitrary: i)
  case Nil
  then show ?case by simp
next
  case (Cons x xs)
  then show ?case by (auto split: if_splits)
qed


lemma updateItem_items:
  "items (snd (updateItem s now ident u)) =
     (case findIndex (\<lambda>it. id_of it = ident) (items s) of
        Some i \<Rightarrow> (items s)[i := (spread (items s ! i) u)\<lparr>lastUpdated := todayISO now\<rparr>]
      | None \<Rightarrow> items s)"
  by (simp add: updateItem_def Let_def split: option.splits)


lemma updateItem_quantity_nonneg:
  assumes "\<forall>it \<in> set (items s). 0 \<le> quantity it"
    and "\<forall>q. u_quantity u = Some q \<longrightarrow> 0 \<le> q"
  shows "\<forall>it \<in> set (items (snd (updateItem s now ident u))). 0 \<le> quantity it"
proof (cases "findIndex (\<lambda>it. id_of it = ident) (items s)")
  case None
  with assms show ?thesis by (simp add: updateItem_items)
next
  case (Some i)
  then have i: "i < length (items s)" by (simp add: findIndex_Some)
  then have old: "0 \<le> quantity (items s ! i)" using assms(1) by simp
  define v where "v = (spread (items s ! i) u)\<lparr>lastUpdated := todayISO now\<rparr>"
  have new: "0 \<le> quantity v"
    using old assms(2) by (cases "u_quantity u") (simp_all add: v_def spread_def orElse_def)
  have "set ((items s)[i := v]) \<subseteq> insert v (set (items s))"
    by (rule set_update_subset_insert)
  with new assms(1) have "\<forall>it \<in> set ((items s)[i := v]). 0 \<le> quantity it"
    by blast
  with Some show ?thesis
    by (simp add: updateItem_items v_def)
qed

lemma findIndex_find:
  "findIndex p xs = Some i \<Longrightarrow> find p xs = Some (xs ! i)"
proof (induction xs arbitrary: i)
  case Nil
  then show ?case by simp
next
  case (Cons x xs)
  then show ?case by (auto split: if_splits)
qed

lemma findIndex_None_find:
  "findIndex p xs = None \<Longrightarrow> find p xs = None"
  by (induction xs) (auto split: if_splits)

lemma spread_quantity_only:
  "spread it (noUpdates\<lparr>u_quantity := Some v\<rparr>) = it\<lparr>quantity := v\<rparr>"
  by (simp add: spread_def noUpdates_def orElse_def orKeep_def)

lemma updateQuantity_found:
  assumes "findIndex (\<lambda>it. id_of it = ident) (items s) = Some i"
  shows "updateQuantity s now ident q =
     (Some ((items s ! i)\<lparr>quantity := max 0 q, lastUpdated := todayISO now\<rparr>),
      s\<lparr>items := (items s)[i := (items s ! i)\<lparr>quantity := max 0 q, lastUpdated := todayISO now\<rparr>]\<rparr>)"
  using assms by (simp add: updateQuantity_def updateItem_def Let_def spread_quantity_only)

lemma updateQuantity_missing:
  assumes "findIndex (\<lambda>it. id_of it = ident) (items s) = None"
  shows "updateQuantity s now ident q = (None, s)"
  using assms by (simp add: updateQuantity_def updateItem_def)

lemma increaseQuantity_found:
  assumes "findIndex (\<lambda>it. id_of it = ident) (items s) = Some i"
  shows "increaseQuantity s now ident a = updateQuantity s now ident (quantity (items s ! i) + a)"
  using findIndex_find [OF assms] by (simp add: increaseQuantity_def getItemById_def)

lemma decreaseQuantity_found:
  assumes "findIndex (\<lambda>it. id_of it = ident) (items s) = Some i"
  shows "decreaseQuantity s now ident a = updateQuantity s now ident (quantity (items s ! i) - a)"
  using findIndex_find [OF assms] by (simp add: decreaseQuantity_def getItemById_def)

lemma increaseQuantity_missing:
  assumes "findIndex (\<lambda>it. id_of it = ident) (items s) = None"
  shows "increaseQuantity s now ident a = (None, s)"
  using findIndex_None_find [OF assms] by (simp add: increaseQuantity_def getItemById_def)

lemma decreaseQuantity_missing:
  assumes "findIndex (\<lambda>it. id_of it = ident) (items s) = None"
  shows "decreaseQuantity s now ident a = (None, s)"
  using findIndex_None_find [OF assms] by (simp add: decreaseQuantity_def getItemById_def)

lemma nth_update_nonneg:
  assumes "j < length xs" "0 \<le> quantity (xs ! j)" "0 \<le> quantity v"
  shows "0 \<le> quantity (xs[i := v] ! j)"
  using assms by (cases "i = j") simp_all

lemma updateQuantity_nth_nonneg:
  assumes "j < length (items s)" "0 \<le> quantity (items s ! j)"
  shows "0 \<le> quantity (items (snd (updateQuantity s now ident q)) ! j)"
proof (cases "findIndex (\<lambda>it. id_of it = ident) (items s)")
  case None
  with assms show ?thesis by (simp add: updateQuantity_missing)
next
  case (Some i)
  have "0 \<le> quantity ((items s ! i)\<lparr>quantity := max 0 q, lastUpdated := todayISO now\<rparr>)"
    by simp
  with assms have "0 \<le> quantity ((items s)
      [i := (items s ! i)\<lparr>quantity := max 0 q, lastUpdated := todayISO now\<rparr>] ! j)"
    by (rule nth_update_nonneg)
  with Some show ?thesis by (simp add: updateQuantity_found)
qed

text \<open>
  C5, as stated, fails for \<open>updateItem\<close>: the payload's quantity is stored as it is. Updating
  paracetamol (quantity 150) with \<open>{quantity: -5}\<close> leaves the quantity at -5.
\<close>

theorem updateItem_negative_quantity_counterexample:
  "0 \<le> quantity paracetamol
   \<and> map quantity (items (snd (updateItem (newInventoryData [paracetamol]) (dateMs 20332) ''1''
        (noUpdates\<lparr>u_quantity := Some (- 5)\<rparr>)))) = [- 5]"
  by (simp add: updateItem_def Let_def spread_def orElse_def orKeep_def noUpdates_def
      newInventoryData_def paracetamol_def)

text \<open>
  C5, amended. \<open>updateQuantity\<close>, \<open>increaseQuantity\<close> and \<open>decreaseQuantity\<close> replace the first
  record with the given id by that record with its quantity set to \<open>max 0\<close> of the
  requested value (the new quantity, the old quantity plus the amount, the old quantity
  minus the amount) and \<open>lastUpdated\<close> set to the current day; this record is also what
  they return, and all other records stay as they are. Without a record of that id nothing
  changes. So every record whose quantity is not negative before one of these three
  operations has a non-negative quantity afterwards. \<open>updateItem\<close> stores the quantity of
  its payload as it is (the old quantity if the payload has none), and \<open>addItem\<close> appends
  the payload with its quantity as it is.
\<close>

theorem quantity_clamped:
  "(findIndex (\<lambda>it. id_of it = ident) (items s) = Some i \<longrightarrow>
      updateQuantity s now ident q =
        (Some ((items s ! i)\<lparr>quantity := max 0 q, lastUpdated := todayISO now\<rparr>),
         s\<lparr>items := (items s)
              [i := (items s ! i)\<lparr>quantity := max 0 q, lastUpdated := todayISO now\<rparr>]\<rparr>)
      \<and> increaseQuantity s now ident a =
        (Some ((items s ! i)\<lparr>quantity := max 0 (quantity (items s ! i) + a),
                               lastUpdated := todayISO now\<rparr>),
         s\<lparr>items := (items s)
              [i := (items s ! i)\<lparr>quantity := max 0 (quantity (items s ! i) + a),
                                   lastUpdated := todayISO now\<rparr>]\<rparr>)
      \<and> decreaseQuantity s now ident a =
        (Some ((items s ! i)\<lparr>quantity := max 0 (quantity (items s ! i) - a),
                               lastUpdated := todayISO now\<rparr>),
         s\<lparr>items := (items s)
              [i := (items s ! i)\<lparr>quantity := max 0 (quantity (items s ! i) - a),
                                   lastUpdated := todayISO now\<rparr>]\<rparr>)
      \<and> items (snd (updateItem s now ident u))
          = (items s)[i := (spread (items s ! i) u)\<lparr>lastUpdated := todayISO now\<rparr>]
      \<and> quantity (items (snd (updateItem s now ident u)) ! i)
          = (case u_quantity u of None \<Rightarrow> quantity (items s ! i) | Some v \<Rightarrow> v))
   \<and> (findIndex (\<lambda>it. id_of it = ident) (items s) = None \<longrightarrow>
        updateQuantity s now ident q = (None, s)
        \<and> increaseQuantity s now ident a = (None, s)
        \<and> decreaseQuantity s now ident a = (None, s)
        \<and> updateItem s now ident u = (None, s))
   \<and> (j < length (items s) \<and> 0 \<le> quantity (items s ! j) \<longrightarrow>
        0 \<le> quantity (items (snd (updateQuantity s now ident q)) ! j)
        \<and> 0 \<le> quantity (items (snd (increaseQuantity s now ident a)) ! j)
        \<and> 0 \<le> quantity (items (snd (decreaseQuantity s now ident a)) ! j))
   \<and> length (items (snd (updateQuantity s now ident q))) = length (items s)
   \<and> length (items (snd (increaseQuantity s now ident a))) = length (items s)
   \<and> length (items (snd (decreaseQuantity s now ident a))) = length (items s)
   \<and> items (snd (addItem s now newId itemData))
       = items s @ [itemData\<lparr>id_of := newId, dateAdded := todayISO now,
                              lastUpdated := todayISO now\<rparr>]
   \<and> quantity (fst (addItem s now newId itemData)) = quantity itemData"
proof -
  let ?p = "\<lambda>it. id_of it = ident"
  have found: "findIndex ?p (items s) = Some i \<longrightarrow>
      updateQuantity s now ident q =
        (Some ((items s ! i)\<lparr>quantity := max 0 q, lastUpdated := todayISO now\<rparr>),
         s\<lparr>items := (items s)
              [i := (items s ! i)\<lparr>quantity := max 0 q, lastUpdated := todayISO now\<rparr>]\<rparr>)
      \<and> increaseQuantity s now ident a =
        (Some ((items s ! i)\<lparr>quantity := max 0 (quantity (items s ! i) + a),
                               lastUpdated := todayISO now\<rparr>),
         s\<lparr>items := (items s)
              [i := (items s ! i)\<lparr>quantity := max 0 (quantity (items s ! i) + a),
                                   lastUpdated := todayISO now\<rparr>]\<rparr>)
      \<and> decreaseQuantity s now ident a =
        (Some ((items s ! i)\<lparr>quantity := max 0 (quantity (items s ! i) - a),
                               lastUpdated := todayISO now\<rparr>),
         s\<lparr>items := (items s)
              [i := (items s ! i)\<lparr>quantity := max 0 (quantity (items s ! i) - a),
                                   lastUpdated := todayISO now\<rparr>]\<rparr>)
      \<and> items (snd (updateItem s now ident u))
          = (items s)[i := (spread (items s ! i) u)\<lparr>lastUpdated := todayISO now\<rparr>]
      \<and> quantity (items (snd (updateItem s now ident u)) ! i)
          = (case u_quantity u of None \<Rightarrow> quantity (items s ! i) | Some v \<Rightarrow> v)"
  proof
    assume f: "findIndex ?p (items s) = Some i"
    then have i: "i < length (items s)" by (simp add: findIndex_Some)
    have stored: "items (snd (updateItem s now ident u))
        = (items s)[i := (spread (items s ! i) u)\<lparr>lastUpdated := todayISO now\<rparr>]"
      using f by (simp add: updateItem_items)
    have "quantity (items (snd (updateItem s now ident u)) ! i)
        = (case u_quantity u of None \<Rightarrow> quantity (items s ! i) | Some v \<Rightarrow> v)"
      using i by (simp add: stored spread_def orElse_def)
    with stored show "updateQuantity s now ident q =
        (Some ((items s ! i)\<lparr>quantity := max 0 q, lastUpdated := todayISO now\<rparr>),
         s\<lparr>items := (items s)
              [i := (items s ! i)\<lparr>quantity := max 0 q, lastUpdated := todayISO now\<rparr>]\<rparr>)
      \<and> increaseQuantity s now ident a =
        (Some ((items s ! i)\<lparr>quantity := max 0 (quantity (items s ! i) + a),
                               lastUpdated := todayISO now\<rparr>),
         s\<lparr>items := (items s)
              [i := (items s ! i)\<lparr>quantity := max 0 (quantity (items s ! i) + a),
                                   lastUpdated := todayISO now\<rparr>]\<rparr>)
      \<and> decreaseQuantity s now ident a =
        (Some ((items s ! i)\<lparr>quantity := max 0 (quantity (items s ! i) - a),
                               lastUpdated := todayISO now\<rparr>),
         s\<lparr>items := (items s)
              [i := (items s ! i)\<lparr>quantity := max 0 (quantity (items s ! i) - a),
                                   lastUpdated := todayISO now\<rparr>]\<rparr>)
      \<and> items (snd (updateItem s now ident u))
          = (items s)[i := (spread (items s ! i) u)\<lparr>lastUpdated := todayISO now\<rparr>]
      \<and> quantity (items (snd (updateItem s now ident u)) ! i)
          = (case u_quantity u of None \<Rightarrow> quantity (items s ! i) | Some v \<Rightarrow> v)"
      using updateQuantity_found [OF f] increaseQuantity_found [OF f] decreaseQuantity_found [OF f]
      by simp
  qed
  have missing: "findIndex ?p (items s) = None \<longrightarrow>
        updateQuantity s now ident q = (None, s)
        \<and> increaseQuantity s now ident a = (None, s)
        \<and> decreaseQuantity s now ident a = (None, s)
        \<and> updateItem s now ident u = (None, s)"
    by (simp add: updateQuantity_missing increaseQuantity_missing decreaseQuantity_missing
        updateItem_def)
  have incAny: "\<exists>n. increaseQuantity s now ident a = updateQuantity s now ident n"
  proof (cases "findIndex ?p (items s)")
    case None
    then show ?thesis
      by (simp add: increaseQuantity_missing updateQuantity_missing)
  next
    case (Some k)
    then show ?thesis
      using increaseQuantity_found by blast
  qed
  have decAny: "\<exists>n. decreaseQuantity s now ident a = updateQuantity s now ident n"
  proof (cases "findIndex ?p (items s)")
    case None
    then show ?thesis
      by (simp add: decreaseQuantity_missing updateQuantity_missing)
  next
    case (Some k)
    then show ?thesis
      using decreaseQuantity_found by blast
  qed
  have nonneg: "j < length (items s) \<and> 0 \<le> quantity (items s ! j) \<longrightarrow>
        0 \<le> quantity (items (snd (updateQuantity s now ident q)) ! j)
        \<and> 0 \<le> quantity (items (snd (increaseQuantity s now ident a)) ! j)
        \<and> 0 \<le> quantity (items (snd (decreaseQuantity s now ident a)) ! j)"
    using incAny decAny updateQuantity_nth_nonneg [of j s now ident] by auto
  have lenU: "length (items (snd (updateQuantity s now ident n))) = length (items s)" for n
    by (cases "findIndex ?p (items s)")
      (simp_all add: updateQuantity_missing updateQuantity_found)
  have lenI: "length (items (snd (increaseQuantity s now ident a))) = length (items s)"
    using incAny lenU by auto
  have lenD: "length (items (snd (decreaseQuantity s now ident a))) = length (items s)"
    using decAny lenU by auto
  have add: "items (snd (addItem s now newId itemData))
       = items s @ [itemData\<lparr>id_of := newId, dateAdded := todayISO now,
                              lastUpdated := todayISO now\<rparr>]
      \<and> quantity (fst (addItem s now newId itemData)) = quantity itemData"
    by (simp add: addItem_def Let_def)
  from found missing nonneg lenU [of q] lenI lenD add show ?thesis by blast
qed

text \<open>The instance: taking 7 from amoxicillin (quantity 3), the second record of the store,
  leaves 0.\<close>

theorem quantity_clamped_witness:
  "findIndex (\<lambda>it. id_of it = ''5'') (items (newInventoryData [paracetamol, amoxicillin])) = Some 1
   \<and> (1::nat) < length (items (newInventoryData [paracetamol, amoxicillin]))
   \<and> 0 \<le> quantity (items (newInventoryData [paracetamol, amoxicillin]) ! 1)
   \<and> items (snd (decreaseQuantity (newInventoryData [paracetamol, amoxicillin]) (dateMs 20332) ''5'' 7))
       = [paracetamol, amoxicillin\<lparr>quantity := 0, lastUpdated := 20332\<rparr>]
   \<and> fst (decreaseQuantity (newInventoryData [paracetamol, amoxicillin]) (dateMs 20332) ''5'' 7)
       = Some (amoxicillin\<lparr>quantity := 0, lastUpdated := 20332\<rparr>)
   \<and> 0 \<le> quantity (items (snd (decreaseQuantity (newInventoryData [paracetamol, amoxicillin])
            (dateMs 20332) ''5'' 7)) ! 1)"
proof -
  let ?s = "newInventoryData [paracetamol, amoxicillin]"
  note inst = quantity_clamped [of "''5''" ?s 1 "dateMs 20332" 0 7 noUpdates 1 "''x''" paracetamol]
  have f: "findIndex (\<lambda>it. id_of it = ''5'') (items ?s) = Some 1"
    by (simp add: newInventoryData_def paracetamol_def amoxicillin_def)
  have j: "(1::nat) < length (items ?s) \<and> 0 \<le> quantity (items ?s ! 1)"
    by (simp add: newInventoryData_def amoxicillin_def)
  from inst f have run: "decreaseQuantity ?s (dateMs 20332) ''5'' 7 =
      (Some ((items ?s ! 1)\<lparr>quantity := max 0 (quantity (items ?s ! 1) - 7),
                             lastUpdated := todayISO (dateMs 20332)\<rparr>),
       ?s\<lparr>items := (items ?s)
            [1 := (items ?s ! 1)\<lparr>quantity := max 0 (quantity (items ?s ! 1) - 7),
                                  lastUpdated := todayISO (dateMs 20332)\<rparr>]\<rparr>)"
    by blast
  have today: "todayISO (dateMs 20332) = 20332"
    by (simp add: todayISO_def dateMs_def msPerDay_def)
  have clamp: "max 0 (quantity amoxicillin - 7) = 0"
    by (simp add: amoxicillin_def)
  from run have stored: "items (snd (decreaseQuantity ?s (dateMs 20332) ''5'' 7))
      = [paracetamol, amoxicillin\<lparr>quantity := 0, lastUpdated := 20332\<rparr>]"
    by (simp add: today clamp newInventoryData_def)
  from run have ret: "fst (decreaseQuantity ?s (dateMs 20332) ''5'' 7)
      = Some (amoxicillin\<lparr>quantity := 0, lastUpdated := 20332\<rparr>)"
    by (simp add: today clamp newInventoryData_def)
  from inst j have "0 \<le> quantity (items (snd (decreaseQuantity ?s (dateMs 20332) ''5'' 7)) ! 1)"
    by blast
  with f j stored ret show ?thesis by blast
qed




section \<open>Filtering by status\<close>

text \<open>
  C6, as stated, fails for the statuses low-stock and expired, whose filters do not follow
  the precedence chain. On 2025-09-01 amoxicillin (quantity 3, threshold 10, expired on
  2025-08-25) is returned by the low-stock filter although its status is expired, and with
  quantity 0 it is returned by the expired filter although its status is out-of-stock.
\<close>

theorem filterByStatus_precedence_counterexample:
  "filterByStatus (newInventoryData [amoxicillin]) (dateMs 20332) ''low-stock'' = [amoxicillin]
   \<and> getItemStatus (newInventoryData [amoxicillin]) (dateMs 20332) amoxicillin = ''expired''
   \<and> filterByStatus (newInventoryData [amoxicillin\<lparr>quantity := 0\<rparr>]) (dateMs 20332) ''expired''
       = [amoxicillin\<lparr>quantity := 0\<rparr>]
   \<and> getItemStatus (newInventoryData [amoxicillin\<lparr>quantity := 0\<rparr>]) (dateMs 20332)
        (amoxicillin\<lparr>quantity := 0\<rparr>) = ''out-of-stock''"
  by (simp add: filterByStatus_def getItemStatus_def isExpired_def effectiveThreshold_def
      newInventoryData_def amoxicillin_def dateMs_def msPerDay_def)

text \<open>
  C6, amended. For out-of-stock, and for in-stock when no effective threshold is
  negative, \<open>filterByStatus\<close> returns exactly the records whose computed status is that
  status, in collection order. For low-stock it returns the records with
  \<open>0 < quantity \<le> effectiveThreshold\<close> and for expired the records for which \<open>isExpired\<close>
  holds, both independently of the precedence chain: the records whose computed status is
  low-stock are those of the low-stock result that are neither expired nor expiring
  (given no negative quantity), and the records whose computed status is expired are
  those of the expired result with a non-zero quantity. For expiring it returns the
  records for which \<open>isExpiringSoon\<close> holds and \<open>isExpired\<close> does not.
\<close>

theorem filterByStatus_characterisation:
  "filterByStatus s now ''out-of-stock''
     = filter (\<lambda>it. getItemStatus s now it = ''out-of-stock'') (items s)
   \<and> ((\<forall>it \<in> set (items s). 0 \<le> effectiveThreshold s it) \<longrightarrow>
        filterByStatus s now ''in-stock''
          = filter (\<lambda>it. getItemStatus s now it = ''in-stock'') (items s))
   \<and> filterByStatus s now ''low-stock''
       = filter (\<lambda>it. 0 < quantity it \<and> quantity it \<le> effectiveThreshold s it) (items s)
   \<and> filterByStatus s now ''expired'' = filter (\<lambda>it. isExpired now (expiryDate it)) (items s)
   \<and> ((\<forall>it \<in> set (items s). 0 \<le> quantity it) \<longrightarrow>
        filter (\<lambda>it. getItemStatus s now it = ''low-stock'') (items s)
          = filter (\<lambda>it. \<not> isExpired now (expiryDate it)
                        \<and> \<not> isExpiringSoon now (expiryDate it) (expiryWarningDays s))
              (filterByStatus s now ''low-stock''))
   \<and> filter (\<lambda>it. getItemStatus s now it = ''expired'') (items s)
       = filter (\<lambda>it. quantity it \<noteq> 0) (filterByStatus s now ''expired'')
   \<and> filterByStatus s now ''expiring''
       = filter (\<lambda>it. isExpiringSoon now (expiryDate it) (expiryWarningDays s)
                     \<and> \<not> isExpired now (expiryDate it)) (items s)"
proof -
  have oos: "filterByStatus s now ''out-of-stock''
      = filter (\<lambda>it. getItemStatus s now it = ''out-of-stock'') (items s)"
    by (simp add: filterByStatus_def getItemStatus_def)
  have ins: "filterByStatus s now ''in-stock''
      = filter (\<lambda>it. getItemStatus s now it = ''in-stock'') (items s)"
    if "\<forall>it \<in> set (items s). 0 \<le> effectiveThreshold s it"
    using that by (auto simp add: filterByStatus_def getItemStatus_def intro!: filter_cong)
  have low: "filterByStatus s now ''low-stock''
      = filter (\<lambda>it. 0 < quantity it \<and> quantity it \<le> effectiveThreshold s it) (items s)"
    by (auto simp add: filterByStatus_def intro!: filter_cong)
  have exp: "filterByStatus s now ''expired'' = filter (\<lambda>it. isExpired now (expiryDate it)) (items s)"
    by (simp add: filterByStatus_def)
  have lowStatus: "filter (\<lambda>it. getItemStatus s now it = ''low-stock'') (items s)
      = filter (\<lambda>it. \<not> isExpired now (expiryDate it)
                    \<and> \<not> isExpiringSoon now (expiryDate it) (expiryWarningDays s))
          (filterByStatus s now ''low-stock'')"
    if "\<forall>it \<in> set (items s). 0 \<le> quantity it"
    using that by (auto simp add: low getItemStatus_def intro!: filter_cong)
  have expStatus: "filter (\<lambda>it. getItemStatus s now it = ''expired'') (items s)
      = filter (\<lambda>it. quantity it \<noteq> 0) (filterByStatus s now ''expired'')"
    by (auto simp add: exp getItemStatus_def intro!: filter_cong)
  have expiring: "filterByStatus s now ''expiring''
      = filter (\<lambda>it. isExpiringSoon now (expiryDate it) (expiryWarningDays s)
                    \<and> \<not> isExpired now (expiryDate it)) (items s)"
    by (simp add: filterByStatus_def)
  from oos ins low exp lowStatus expStatus expiring show ?thesis by blast
qed

text \<open>The instance: paracetamol, surgical masks and amoxicillin on 2025-09-01.\<close>

theorem filterByStatus_characterisation_witness:
  "0 \<le> effectiveThreshold (newInventoryData [paracetamol, surgicalMasks, amoxicillin]) paracetamol
   \<and> 0 \<le> effectiveThreshold (newInventoryData [paracetamol, surgicalMasks, amoxicillin]) surgicalMasks
   \<and> 0 \<le> effectiveThreshold (newInventoryData [paracetamol, surgicalMasks, amoxicillin]) amoxicillin
   \<and> 0 \<le> quantity paracetamol \<and> 0 \<le> quantity surgicalMasks \<and> 0 \<le> quantity amoxicillin
   \<and> filterByStatus (newInventoryData [paracetamol, surgicalMasks, amoxicillin]) (dateMs 20332) ''in-stock''
       = [paracetamol]
   \<and> filter (\<lambda>it. getItemStatus (newInventoryData [paracetamol, surgicalMasks, amoxicillin])
                   (dateMs 20332) it = ''in-stock'')
        (items (newInventoryData [paracetamol, surgicalMasks, amoxicillin])) = [paracetamol]
   \<and> filterByStatus (newInventoryData [paracetamol, surgicalMasks, amoxicillin]) (dateMs 20332) ''low-stock''
       = [surgicalMasks, amoxicillin]
   \<and> filter (\<lambda>it. getItemStatus (newInventoryData [paracetamol, surgicalMasks, amoxicillin])
                   (dateMs 20332) it = ''low-stock'')
        (items (newInventoryData [paracetamol, surgicalMasks, amoxicillin])) = [surgicalMasks]"
proof -
  let ?s = "newInventoryData [paracetamol, surgicalMasks, amoxicillin]"
  note inst = filterByStatus_characterisation [of ?s "dateMs 20332"]
  have thr: "0 \<le> effectiveThreshold ?s paracetamol \<and> 0 \<le> effectiveThreshold ?s surgicalMasks
      \<and> 0 \<le> effectiveThreshold ?s amoxicillin"
    by (simp add: effectiveThreshold_def newInventoryData_def paracetamol_def surgicalMasks_def
        amoxicillin_def)
  then have thrAll: "\<forall>it \<in> set (items ?s). 0 \<le> effectiveThreshold ?s it"
    by (simp add: newInventoryData_def)
  have qty: "0 \<le> quantity paracetamol \<and> 0 \<le> quantity surgicalMasks \<and> 0 \<le> quantity amoxicillin"
    by (simp add: paracetamol_def surgicalMasks_def amoxicillin_def)
  then have qtyAll: "\<forall>it \<in> set (items ?s). 0 \<le> quantity it"
    by (simp add: newInventoryData_def)
  have ins: "filterByStatus ?s (dateMs 20332) ''in-stock'' = [paracetamol]"
    by (simp add: filterByStatus_def isExpiringSoon_days getDaysUntilExpiry_div isExpired_def
        effectiveThreshold_def newInventoryData_def paracetamol_def surgicalMasks_def
        amoxicillin_def dateMs_def msPerDay_def)
  have low: "filterByStatus ?s (dateMs 20332) ''low-stock'' = [surgicalMasks, amoxicillin]"
    by (simp add: filterByStatus_def effectiveThreshold_def newInventoryData_def
        paracetamol_def surgicalMasks_def amoxicillin_def)
  from inst thrAll ins
  have insStatus: "filter (\<lambda>it. getItemStatus ?s (dateMs 20332) it = ''in-stock'') (items ?s)
      = [paracetamol]"
    by simp
  have split: "filter (\<lambda>it. \<not> isExpired (dateMs 20332) (expiryDate it)
        \<and> \<not> isExpiringSoon (dateMs 20332) (expiryDate it) (expiryWarningDays ?s))
      [surgicalMasks, amoxicillin] = [surgicalMasks]"
    by (simp add: isExpiringSoon_days getDaysUntilExpiry_div isExpired_def newInventoryData_def
        surgicalMasks_def amoxicillin_def dateMs_def msPerDay_def)
  from inst qtyAll low split
  have lowStatus: "filter (\<lambda>it. getItemStatus ?s (dateMs 20332) it = ''low-stock'') (items ?s)
      = [surgicalMasks]"
    by simp
  from thr qty ins insStatus low lowStatus show ?thesis by blast
qed

section \<open>Search\<close>

lemma toLowerCase_example: "toLowerCase ''PAR2024001 aZ@[`{'' = ''par2024001 az@[`{''"
  by (simp add: toLowerCase_def toLowerChar_def)

lemma filterThrowing_Inr:
  "\<forall>x \<in> set xs. p x = Inr (q x) \<Longrightarrow> filterThrowing p xs = Inr (filter q xs)"
  by (induction xs) simp_all

lemma filterThrowing_Inl:
  "p x = Inl e \<Longrightarrow> \<forall>y \<in> set xs. \<exists>b. p y = Inr b \<Longrightarrow> filterThrowing p (xs @ x # ys) = Inl e"
  by (induction xs) (auto split: sum.splits)

lemma searchMatch_present:
  "batchNumber it = Some b \<Longrightarrow>
     searchMatch t it = Inr (includesStr (toLowerCase (name it)) t
       \<or> includesStr (toLowerCase (category it)) t
       \<or> includesStr (toLowerCase b) t
       \<or> (case description it of
             None \<Rightarrow> False
           | Some d \<Rightarrow> d \<noteq> [] \<and> includesStr (toLowerCase d) t))"
  by (simp add: searchMatch_def split: option.splits)

lemma searchMatch_absent:
  "batchNumber it = None \<Longrightarrow>
     searchMatch t it =
       (if includesStr (toLowerCase (name it)) t \<or> includesStr (toLowerCase (category it)) t
        then Inr True else Inl TypeError)"
  by (simp add: searchMatch_def)

lemma includesStr_empty: "includesStr str []"
  by (induction str) simp_all

lemma searchItems_empty_query: "searchItems s [] = Inr (items s)"
proof -
  have "\<forall>it \<in> set (items s). searchMatch [] it = Inr ((\<lambda>_. True) it)"
    by (simp add: searchMatch_def includesStr_empty)
  then have "filterThrowing (searchMatch []) (items s) = Inr (filter (\<lambda>_. True) (items s))"
    by (rule filterThrowing_Inr)
  then show ?thesis
    by (simp add: searchItems_def toLowerCase_def)
qed

lemma searchItems_with_batchNumbers:
  assumes "\<forall>it \<in> set (items s). batchNumber it \<noteq> None"
  shows "\<exists>ys. searchItems s query = Inr ys"
proof -
  have "\<forall>it \<in> set (items s). searchMatch (toLowerCase query) it
      = Inr (searchMatch (toLowerCase query) it = Inr True)"
    using assms by (auto simp add: searchMatch_def split: option.splits)
  then have "filterThrowing (searchMatch (toLowerCase query)) (items s)
      = Inr (filter (\<lambda>it. searchMatch (toLowerCase query) it = Inr True) (items s))"
    by (rule filterThrowing_Inr)
  then show ?thesis
    by (simp add: searchItems_def)
qed

text \<open>
  C7. A record without a batch number makes \<open>searchItems\<close> fail unless its name or its
  category already matches: searching for \<open>Mask\<close> in a store that holds paracetamol without
  its batch number ends in a \<open>TypeError\<close>. The description is guarded (the same search over
  paracetamol without its description returns no record), and with both fields present the
  search is case-insensitive and returns the matching records.
\<close>

theorem searchItems_missing_batchNumber:
  "searchItems (newInventoryData [paracetamol\<lparr>batchNumber := None\<rparr>]) ''Mask'' = Inl TypeError
   \<and> searchItems (newInventoryData [paracetamol\<lparr>description := None\<rparr>]) ''Mask'' = Inr []
   \<and> searchItems (newInventoryData [paracetamol, surgicalMasks]) ''Mask'' = Inr [surgicalMasks]"
  by (simp add: searchItems_def searchMatch_def toLowerCase_def toLowerChar_def
      newInventoryData_def paracetamol_def surgicalMasks_def)

section \<open>Sorting: critical alerts and recent activity\<close>

text \<open>With a comparator that subtracts keys, \<open>arraySort\<close> is the library's stable insertion
  sort on the negated key: it sorts by descending key and keeps the order of equal keys. On
  an array that is already in order it changes nothing.\<close>

lemma insertBy_insort_key:
  "insertBy (\<lambda>a b. f b - f a) x xs = insort_key (\<lambda>a. - f a) x xs"
  for f :: "'a \<Rightarrow> int"
  by (induction xs) simp_all

lemma arraySort_sort_key:
  "arraySort (\<lambda>a b. f b - f a) xs = sort_key (\<lambda>a. - f a) xs"
  for f :: "'a \<Rightarrow> int"
  by (induction xs) (simp_all add: insertBy_insort_key)

lemma arraySort_descending:
  "sorted_wrt (\<lambda>a b. f a \<ge> f b) (arraySort (\<lambda>a b. f b - f a) xs)"
  for f :: "'a \<Rightarrow> int"
proof -
  have "sorted (map (\<lambda>a. - f a) (sort_key (\<lambda>a. - f a) xs))"
    by (rule sorted_sort_key)
  then show ?thesis
    by (simp add: arraySort_sort_key sorted_map)
qed

lemma arraySort_stable:
  "filter (\<lambda>a. f a = k) (arraySort (\<lambda>a b. f b - f a) xs) = filter (\<lambda>a. f a = k) xs"
  for f :: "'a \<Rightarrow> int"
proof -
  have "filter (\<lambda>a. - f a = - k) (sort_key (\<lambda>a. - f a) xs) = filter (\<lambda>a. - f a = - k) xs"
    by (rule sort_key_stable)
  then show ?thesis
    by (simp add: arraySort_sort_key)
qed

lemma arraySort_mset: "mset (arraySort (\<lambda>a b. f b - f a) xs) = mset xs"
  for f :: "'a \<Rightarrow> int"
  by (simp add: arraySort_sort_key)








lemma compareLastUpdated_key:
  "compareLastUpdated = (\<lambda>a b. dateMs (lastUpdated b) - dateMs (lastUpdated a))"
  by (simp add: compareLastUpdated_def fun_eq_iff)

lemma dateMs_le: "(dateMs a \<le> dateMs b) = (a \<le> b)"
  using msPerDay_pos by (simp add: dateMs_def)

lemma dateMs_eq: "(dateMs a = dateMs b) = (a = b)"
  using msPerDay_pos by (simp add: dateMs_def)

lemma sortedItems_descending:
  "sorted_wrt (\<lambda>a b. lastUpdated a \<ge> lastUpdated b) (sortedItems s)"
  using arraySort_descending [of "\<lambda>a. dateMs (lastUpdated a)" "items s"]
  by (simp add: sortedItems_def compareLastUpdated_key dateMs_le)

lemma sortedItems_stable:
  "filter (\<lambda>it. lastUpdated it = d) (sortedItems s) = filter (\<lambda>it. lastUpdated it = d) (items s)"
  using arraySort_stable [of "\<lambda>a. dateMs (lastUpdated a)" "dateMs d" "items s"]
  by (simp add: sortedItems_def compareLastUpdated_key dateMs_eq)

lemma sortedItems_mset: "mset (sortedItems s) = mset (items s)"
  by (simp add: sortedItems_def compareLastUpdated_key arraySort_mset)

lemma descending_distinct_strict:
  "sorted_wrt (\<lambda>a b. f a \<ge> f b) xs \<Longrightarrow> distinct (map f xs) \<Longrightarrow> sorted_wrt (\<lambda>a b. f a > f b) xs"
  for f :: "'a \<Rightarrow> int"
  by (induction xs) (auto simp add: less_le image_iff)

lemma sortedItems_distinct:
  "distinct (map lastUpdated (sortedItems s)) = distinct (map lastUpdated (items s))"
proof -
  have "mset (map lastUpdated (sortedItems s)) = mset (map lastUpdated (items s))"
    by (simp add: sortedItems_mset)
  then show ?thesis
    by (rule mset_eq_imp_distinct_iff)
qed

text \<open>
  C9. \<open>getRecentActivity\<close> lists the first 10 records of the collection sorted by
  \<open>lastUpdated\<close>, most recent first: the sorted array is a rearrangement of the collection in
  descending order of \<open>lastUpdated\<close> in which records with the same \<open>lastUpdated\<close> keep their
  collection order; the entries are in descending order of their date and there are
  \<open>min 10 n\<close> of them for \<open>n\<close> records. When the \<open>lastUpdated\<close> values are pairwise distinct,
  the entries are in strictly descending order.
\<close>

theorem getRecentActivity_order:
  "map activityItem (getRecentActivity s) = take 10 (sortedItems s)
   \<and> mset (sortedItems s) = mset (items s)
   \<and> sorted_wrt (\<lambda>a b. lastUpdated a \<ge> lastUpdated b) (sortedItems s)
   \<and> filter (\<lambda>it. lastUpdated it = d) (sortedItems s)
       = filter (\<lambda>it. lastUpdated it = d) (items s)
   \<and> sorted_wrt (\<lambda>a b. date a \<ge> date b) (getRecentActivity s)
   \<and> length (getRecentActivity s) = min 10 (length (items s))
   \<and> (distinct (map lastUpdated (items s))
        \<longrightarrow> sorted_wrt (\<lambda>a b. date a > date b) (getRecentActivity s))"
proof -
  have entries: "map activityItem (getRecentActivity s) = take 10 (sortedItems s)"
    by (simp add: getRecentActivity_def comp_def)
  have desc: "sorted_wrt (\<lambda>a b. date a \<ge> date b) (getRecentActivity s)"
    using sorted_wrt_take [OF sortedItems_descending, of 10 s]
    by (simp add: getRecentActivity_def sorted_wrt_map)
  have "length (sortedItems s) = length (items s)"
    using sortedItems_mset [of s] by (rule mset_eq_length)
  then have len: "length (getRecentActivity s) = min 10 (length (items s))"
    by (simp add: getRecentActivity_def min.commute)
  have strict: "sorted_wrt (\<lambda>a b. date a > date b) (getRecentActivity s)"
    if "distinct (map lastUpdated (items s))"
  proof -
    from that have "distinct (map lastUpdated (sortedItems s))"
      by (simp add: sortedItems_distinct)
    with sortedItems_descending have "sorted_wrt (\<lambda>a b. lastUpdated a > lastUpdated b) (sortedItems s)"
      by (rule descending_distinct_strict)
    then have "sorted_wrt (\<lambda>a b. lastUpdated a > lastUpdated b) (take 10 (sortedItems s))"
      by (rule sorted_wrt_take)
    then show ?thesis
      by (simp add: getRecentActivity_def sorted_wrt_map)
  qed
  from entries sortedItems_mset sortedItems_descending sortedItems_stable desc len strict
  show ?thesis by blast
qed

text \<open>The instance: the first five records of the initial data.\<close>

theorem getRecentActivity_order_witness:
  "distinct (map lastUpdated
      (items (newInventoryData [paracetamol, surgicalMasks, digitalThermometer, vitaminC, amoxicillin])))
   \<and> map (\<lambda>a. (id_of (activityItem a), date a))
       (getRecentActivity
          (newInventoryData [paracetamol, surgicalMasks, digitalThermometer, vitaminC, amoxicillin]))
     = [(''5'', 19940), (''1'', 19936), (''4'', 19934), (''2'', 19924), (''3'', 19889)]
   \<and> sorted_wrt (\<lambda>a b. date a > date b)
       (getRecentActivity
          (newInventoryData [paracetamol, surgicalMasks, digitalThermometer, vitaminC, amoxicillin]))"
proof -
  have pre: "distinct (map lastUpdated
      (items (newInventoryData [paracetamol, surgicalMasks, digitalThermometer, vitaminC, amoxicillin])))"
    by (simp add: newInventoryData_def paracetamol_def surgicalMasks_def digitalThermometer_def
        vitaminC_def amoxicillin_def)
  have run: "map (\<lambda>a. (id_of (activityItem a), date a))
       (getRecentActivity
          (newInventoryData [paracetamol, surgicalMasks, digitalThermometer, vitaminC, amoxicillin]))
     = [(''5'', 19940), (''1'', 19936), (''4'', 19934), (''2'', 19924), (''3'', 19889)]"
    by (simp add: getRecentActivity_def sortedItems_def compareLastUpdated_def
        newInventoryData_def paracetamol_def surgicalMasks_def digitalThermometer_def
        vitaminC_def amoxicillin_def dateMs_def msPerDay_def)
  from getRecentActivity_order
    [of "newInventoryData [paracetamol, surgicalMasks, digitalThermometer, vitaminC, amoxicillin]"] pre
  have "sorted_wrt (\<lambda>a b. date a > date b)
       (getRecentActivity
          (newInventoryData [paracetamol, surgicalMasks, digitalThermometer, vitaminC, amoxicillin]))"
    by blast
  with pre run show ?thesis by blast
qed

end
